theory Spec2Isabelle
  imports Complex_Main "HOL-Library.Word"
begin

section \<open>OllamaTester: a shallow embedding of \<^verbatim>\<open>src/Ollama/OllamaTester.py\<close>\<close>

text \<open>
  The program is a sequence of checks over three collaborators it does not implement: the
  socket library (a TCP connect and a DNS lookup), the \<^verbatim>\<open>requests\<close> HTTP client and
  \<^verbatim>\<open>subprocess.run\<close>. Every method is modelled as a function that takes the history
  of the calls made to the outside world so far (a \<open>call list\<close>) and returns its result
  together with the extended history. What a collaborator answers is a parameter (the
  record \<open>env\<close>); its answer may depend on the whole history, so two requests to the same
  URL may be answered differently. A raised exception is the \<open>Inl\<close> of a sum.
\<close>

subsection \<open>Strings\<close>

text \<open>\<^verbatim>\<open>str(n)\<close> and the \<^verbatim>\<open>{n}\<close> of an f-string, for a Python int.\<close>

definition digit_char :: "nat \<Rightarrow> char" where
  "digit_char d = ''0123456789'' ! d"

fun str_nat :: "nat \<Rightarrow> string" where
  "str_nat n = (if n < 10 then [digit_char n] else str_nat (n div 10) @ [digit_char (n mod 10)])"

declare str_nat.simps [simp del]

definition str_int :: "int \<Rightarrow> string" where
  "str_int i = (if i < 0 then CHR ''-'' # str_nat (nat (- i)) else str_nat (nat i))"

text \<open>\<^verbatim>\<open>s.startswith(p)\<close>, and with a tuple of prefixes.\<close>

definition startswith :: "string \<Rightarrow> string \<Rightarrow> bool" where
  "startswith s p = (take (length p) s = p)"

definition startswith_any :: "string \<Rightarrow> string list \<Rightarrow> bool" where
  "startswith_any s ps = list_ex (startswith s) ps"

text \<open>\<^verbatim>\<open>s.lower()\<close> on the ASCII letters (what \<^verbatim>\<open>platform.system()\<close> returns is ASCII).\<close>

definition lower_char :: "char \<Rightarrow> char" where
  "lower_char c =
     (if 65 \<le> (of_char c :: nat) \<and> (of_char c :: nat) \<le> 90
      then char_of ((of_char c :: nat) + 32) else c)"

definition lower :: "string \<Rightarrow> string" where
  "lower s = map lower_char s"

text \<open>The \<^verbatim>\<open>{host}\<close> of an f-string where \<open>host\<close> may be \<^verbatim>\<open>None\<close>.\<close>

definition fmt_opt :: "string option \<Rightarrow> string" where
  "fmt_opt h = (case h of None \<Rightarrow> ''None'' | Some s \<Rightarrow> s)"

definition quoted :: "string \<Rightarrow> string" where
  "quoted s = CHR 0x27 # s @ [CHR 0x27]"

subsection \<open>Exceptions\<close>

text \<open>
  The exception classes that the program names in an \<^verbatim>\<open>except\<close> clause, the ones the
  interpreter raises on the program's own operations, and one class that is not an
  \<^verbatim>\<open>Exception\<close>. The predicates are the subclass tests of the \<^verbatim>\<open>except\<close> clauses:
  \<^verbatim>\<open>requests.exceptions.RequestException\<close> derives from \<^verbatim>\<open>IOError\<close> (that is
  \<^verbatim>\<open>OSError\<close>), \<^verbatim>\<open>ConnectTimeout\<close> and \<^verbatim>\<open>ReadTimeout\<close> derive from
  \<^verbatim>\<open>Timeout\<close>, \<^verbatim>\<open>socket.gaierror\<close> derives from \<^verbatim>\<open>OSError\<close>.
\<close>

datatype exc_class =
    RequestException | Req_HTTPError | Req_ConnectionError | Req_Timeout
  | Req_ConnectTimeout | Req_ReadTimeout | Req_JSONDecodeError
  | OSError | Gaierror | FileNotFoundError | TimeoutExpired
  | TypeError | AttributeError | ValueError | KeyboardInterrupt

datatype py_exception = PyExc exc_class string

fun exc_cls :: "py_exception \<Rightarrow> exc_class" where
  "exc_cls (PyExc c m) = c"

fun exc_str :: "py_exception \<Rightarrow> string" where
  "exc_str (PyExc c m) = m"

fun is_Req_Timeout :: "exc_class \<Rightarrow> bool" where
  "is_Req_Timeout Req_Timeout = True"
| "is_Req_Timeout Req_ConnectTimeout = True"
| "is_Req_Timeout Req_ReadTimeout = True"
| "is_Req_Timeout _ = False"

fun is_RequestException :: "exc_class \<Rightarrow> bool" where
  "is_RequestException RequestException = True"
| "is_RequestException Req_HTTPError = True"
| "is_RequestException Req_ConnectionError = True"
| "is_RequestException Req_JSONDecodeError = True"
| "is_RequestException c = is_Req_Timeout c"

fun is_OSError :: "exc_class \<Rightarrow> bool" where
  "is_OSError OSError = True"
| "is_OSError Gaierror = True"
| "is_OSError FileNotFoundError = True"
| "is_OSError c = is_RequestException c"

fun is_Exception :: "exc_class \<Rightarrow> bool" where
  "is_Exception KeyboardInterrupt = False"
| "is_Exception _ = True"

subsection \<open>JSON values, as \<^verbatim>\<open>response.json()\<close> returns them\<close>

text \<open>
  An object is kept as its list of members, read with \<open>map_of\<close>. Numbers are never
  inspected by the program.
\<close>

datatype json =
    JNull | JBool bool | JInt int | JFloat real | JString string
  | JArray "json list" | JObject "(string \<times> json) list"

fun type_name :: "json \<Rightarrow> string" where
  "type_name JNull = ''NoneType''"
| "type_name (JBool b) = ''bool''"
| "type_name (JInt i) = ''int''"
| "type_name (JFloat r) = ''float''"
| "type_name (JString s) = ''str''"
| "type_name (JArray xs) = ''list''"
| "type_name (JObject kvs) = ''dict''"

definition no_attribute :: "json \<Rightarrow> string \<Rightarrow> py_exception" where
  "no_attribute v a =
     PyExc AttributeError (quoted (type_name v) @ '' object has no attribute '' @ quoted a)"

text \<open>\<^verbatim>\<open>v.get(key, default)\<close>: only a dict has the method.\<close>

fun py_get :: "json \<Rightarrow> string \<Rightarrow> json \<Rightarrow> py_exception + json" where
  "py_get (JObject kvs) k dflt = Inr (case map_of kvs k of None \<Rightarrow> dflt | Some v \<Rightarrow> v)"
| "py_get v k dflt = Inl (no_attribute v ''get'')"

text \<open>
  \<^verbatim>\<open>for x in v\<close>: the elements of a list, the keys of a dict, the characters of a
  string; anything else is not iterable.
\<close>

fun py_iter :: "json \<Rightarrow> py_exception + json list" where
  "py_iter (JArray xs) = Inr xs"
| "py_iter (JObject kvs) = Inr (map JString (remdups (map fst kvs)))"
| "py_iter (JString s) = Inr (map (\<lambda>c. JString [c]) s)"
| "py_iter v = Inl (PyExc TypeError (quoted (type_name v) @ '' object is not iterable''))"

subsection \<open>The outside world\<close>

datatype ipv4 = IPv4 "8 word" "8 word" "8 word" "8 word"


record completed_process =
  returncode :: int
  stderr :: string

record response =
  status_code :: int
  json_body :: "py_exception + json"

datatype call =
    CreateConnection string int int
  | Gethostbyname string
  | SubprocessRun "string option list" int
  | HttpRequest string string "json option" int

record env =
  create_connection :: "call list \<Rightarrow> string \<Rightarrow> int \<Rightarrow> int \<Rightarrow> py_exception + unit"
  gethostbyname :: "call list \<Rightarrow> string \<Rightarrow> py_exception + ipv4"
  subprocess_run :: "call list \<Rightarrow> string option list \<Rightarrow> int \<Rightarrow> py_exception + completed_process"
  requests_request :: "call list \<Rightarrow> string \<Rightarrow> string \<Rightarrow> json option \<Rightarrow> int \<Rightarrow> py_exception + response"
  urlparse_hostname :: "string \<Rightarrow> py_exception + string option"
  platform_system :: string
  time_time :: "call list \<Rightarrow> real"

subsection \<open>The data model\<close>

datatype ConnectionStatus =
    CONNECTED | NO_INTERNET | SERVER_UNREACHABLE | MODEL_NOT_LOADED | AUTHENTICATION_FAILED
  | TIMEOUT | RESOURCE_UNAVAILABLE | REMOTE_SERVER_UNREACHABLE | UNKNOWN_ERROR

record OllamaTester =
  base_url :: string
  timeout :: int
  is_remote :: bool

record check_entry =
  available :: bool
  message :: string

record results =
  timestamp :: real
  status :: ConnectionStatus
  details :: "string \<rightharpoonup> check_entry"

datatype test_value = TestBool bool | TestAvailable bool string | TestSuccess bool string

record status_report =
  sr_timestamp :: real
  sr_base_url :: string
  sr_timeout :: int
  sr_is_remote :: bool
  tests :: "string \<rightharpoonup> test_value"

subsection \<open>Construction: \<^verbatim>\<open>_is_local_url\<close> and \<^verbatim>\<open>__init__\<close>\<close>




subsection \<open>The checks\<close>

definition ping_cmd :: "env \<Rightarrow> int \<Rightarrow> string option \<Rightarrow> string option list" where
  "ping_cmd E count host =
     (if lower (platform_system E) = ''windows''
      then [Some ''ping'', Some ''-n'', Some (str_int count), host]
      else [Some ''ping'', Some ''-c'', Some (str_int count), host])"

text \<open>The two \<^verbatim>\<open>except\<close> clauses of \<^verbatim>\<open>ping_host\<close>, with \<open>host\<close> as it is bound then.\<close>

definition ping_except :: "string option \<Rightarrow> py_exception \<Rightarrow> py_exception + bool \<times> string" where
  "ping_except host e =
     (if exc_cls e = TimeoutExpired then Inr (False, ''Ping timeout for '' @ fmt_opt host)
      else if is_Exception (exc_cls e)
      then Inr (False, ''Error pinging '' @ fmt_opt host @ '': '' @ exc_str e)
      else Inl e)"

text \<open>
  \<^verbatim>\<open>ping_host\<close>. \<open>host\<close> is \<^verbatim>\<open>None\<close> when \<^verbatim>\<open>check_remote_server\<close> found no
  hostname in the base URL: \<^verbatim>\<open>host.startswith\<close> then raises an \<^verbatim>\<open>AttributeError\<close>
  inside the \<^verbatim>\<open>try\<close>.
\<close>

definition ping_host ::
  "env \<Rightarrow> OllamaTester \<Rightarrow> string option \<Rightarrow> int \<Rightarrow> call list \<Rightarrow> (py_exception + bool \<times> string) \<times> call list" where
  "ping_host E self host0 count tr =
     (case host0 of
        None \<Rightarrow>
          (ping_except None
             (PyExc AttributeError
                (quoted ''NoneType'' @ '' object has no attribute '' @ quoted ''startswith'')), tr)
      | Some h0 \<Rightarrow>
          (case (if startswith_any h0 [''http://'', ''https://'']
                 then urlparse_hostname E h0 else Inr (Some h0)) of
             Inl e \<Rightarrow> (ping_except host0 e, tr)
           | Inr host \<Rightarrow>
               (let cmd = ping_cmd E count host;
                    tr' = tr @ [SubprocessRun cmd (timeout self)]
                in case subprocess_run E tr cmd (timeout self) of
                     Inl e \<Rightarrow> (ping_except host e, tr')
                   | Inr result \<Rightarrow>
                       if returncode result = 0
                       then (Inr (True, ''Successfully pinged '' @ fmt_opt host), tr')
                       else (Inr (False, ''Failed to ping '' @ fmt_opt host @ '': '' @ stderr result),
                             tr'))))"

definition check_remote_server ::
  "env \<Rightarrow> OllamaTester \<Rightarrow> call list \<Rightarrow> (py_exception + bool \<times> string) \<times> call list" where
  "check_remote_server E self tr =
     (if \<not> is_remote self then (Inr (True, ''Local server, no ping test needed''), tr)
      else
        (case urlparse_hostname E (base_url self) of
           Inl e \<Rightarrow> (Inl e, tr)
         | Inr host \<Rightarrow>
             (case ping_host E self host 4 tr of
                (Inl e, tr') \<Rightarrow> (Inl e, tr')
              | (Inr (ping_success, ping_message), tr') \<Rightarrow>
                  if \<not> ping_success
                  then (Inr (False, ''Remote server ping failed: '' @ ping_message), tr')
                  else (Inr (True, ''Remote server is reachable''), tr'))))"

definition check_internet_connectivity :: "env \<Rightarrow> call list \<Rightarrow> (py_exception + bool) \<times> call list" where
  "check_internet_connectivity E tr =
     (let tr' = tr @ [CreateConnection ''8.8.8.8'' 53 3]
      in case create_connection E tr ''8.8.8.8'' 53 3 of
           Inr u \<Rightarrow> (Inr True, tr')
         | Inl e \<Rightarrow> if is_OSError (exc_cls e) then (Inr False, tr') else (Inl e, tr'))"

text \<open>\<^verbatim>\<open>except requests.exceptions.RequestException as e\<close>, with the message's prefix.\<close>

definition request_except :: "string \<Rightarrow> py_exception \<Rightarrow> py_exception + bool \<times> string" where
  "request_except prefix e =
     (if is_RequestException (exc_cls e) then Inr (False, prefix @ exc_str e) else Inl e)"

definition check_server_availability ::
  "env \<Rightarrow> OllamaTester \<Rightarrow> call list \<Rightarrow> (py_exception + bool \<times> string) \<times> call list" where
  "check_server_availability E self tr =
     (let url = base_url self @ ''/api/tags'';
          tr' = tr @ [HttpRequest ''get'' url None (timeout self)]
      in case requests_request E tr ''get'' url None (timeout self) of
           Inl e \<Rightarrow> (request_except ''Server is not reachable: '' e, tr')
         | Inr response \<Rightarrow>
             if status_code response = 200
             then (Inr (True, ''Server is available and responding''), tr')
             else (Inr (False, ''Server returned status code: '' @ str_int (status_code response)),
                   tr'))"

text \<open>
  The loop of \<^verbatim>\<open>check_model_status\<close>: \<^verbatim>\<open>model.get("name") == model_name\<close> on each
  element in turn, returning at the first match.
\<close>

fun scan_models :: "json list \<Rightarrow> string \<Rightarrow> py_exception + bool" where
  "scan_models [] model_name = Inr False"
| "scan_models (model # models) model_name =
     (case py_get model ''name'' JNull of
        Inl e \<Rightarrow> Inl e
      | Inr v \<Rightarrow> if v = JString model_name then Inr True else scan_models models model_name)"

text \<open>The 200 branch: \<^verbatim>\<open>response.json().get("models", [])\<close> and the loop over it.\<close>

definition model_listed :: "response \<Rightarrow> string \<Rightarrow> py_exception + bool" where
  "model_listed response model_name =
     (case json_body response of
        Inl e \<Rightarrow> Inl e
      | Inr body \<Rightarrow>
          (case py_get body ''models'' (JArray []) of
             Inl e \<Rightarrow> Inl e
           | Inr models \<Rightarrow>
               (case py_iter models of
                  Inl e \<Rightarrow> Inl e
                | Inr ms \<Rightarrow> scan_models ms model_name)))"

definition check_model_status ::
  "env \<Rightarrow> OllamaTester \<Rightarrow> string \<Rightarrow> call list \<Rightarrow> (py_exception + bool \<times> string) \<times> call list" where
  "check_model_status E self model_name tr =
     (let url = base_url self @ ''/api/tags'';
          tr' = tr @ [HttpRequest ''get'' url None (timeout self)]
      in case requests_request E tr ''get'' url None (timeout self) of
           Inl e \<Rightarrow> (request_except ''Error checking model status: '' e, tr')
         | Inr response \<Rightarrow>
             if status_code response = 200
             then
               (case model_listed response model_name of
                  Inl e \<Rightarrow> (request_except ''Error checking model status: '' e, tr')
                | Inr found \<Rightarrow>
                    if found then (Inr (True, ''Model '' @ model_name @ '' is available''), tr')
                    else (Inr (False, ''Model '' @ model_name @ '' is not loaded''), tr'))
             else (Inr (False, ''Failed to check model status: '' @ str_int (status_code response)),
                   tr'))"

definition test_endpoint ::
  "env \<Rightarrow> OllamaTester \<Rightarrow> string \<Rightarrow> string \<Rightarrow> json option \<Rightarrow> call list
     \<Rightarrow> (py_exception + bool \<times> string) \<times> call list" where
  "test_endpoint E self endpoint method data tr =
     (let url = base_url self @ endpoint;
          tr' = tr @ [HttpRequest method url data (timeout self)]
      in case requests_request E tr method url data (timeout self) of
           Inl e \<Rightarrow>
             if is_Req_Timeout (exc_cls e) then (Inr (False, ''Request timed out''), tr')
             else (request_except ''Request failed: '' e, tr')
         | Inr response \<Rightarrow>
             if status_code response = 401 then (Inr (False, ''Authentication failed''), tr')
             else if status_code response = 404 then (Inr (False, ''Endpoint not found''), tr')
             else if status_code response \<ge> 500
             then (Inr (False, ''Server error: '' @ str_int (status_code response)), tr')
             else if status_code response \<ge> 400
             then (Inr (False, ''Request failed: '' @ str_int (status_code response)), tr')
             else (Inr (True, ''Endpoint test successful: '' @ str_int (status_code response)), tr'))"

subsection \<open>The composite procedures\<close>

definition add_detail :: "results \<Rightarrow> string \<Rightarrow> bool \<Rightarrow> string \<Rightarrow> results" where
  "add_detail r k a m = r\<lparr>details := (details r)(k \<mapsto> \<lparr>available = a, message = m\<rparr>)\<rparr>"

text \<open>\<^verbatim>\<open>test_connection\<close> from the server check on (source lines 202 to 225).\<close>

definition test_connection_server ::
  "env \<Rightarrow> OllamaTester \<Rightarrow> results \<Rightarrow> call list \<Rightarrow> (py_exception + results) \<times> call list" where
  "test_connection_server E self r tr =
     (case check_server_availability E self tr of
        (Inl e, tr1) \<Rightarrow> (Inl e, tr1)
      | (Inr (server_available, server_message), tr1) \<Rightarrow>
          (let r1 = add_detail r ''server'' server_available server_message
           in if \<not> server_available then (Inr (r1\<lparr>status := SERVER_UNREACHABLE\<rparr>), tr1)
              else
                (case check_model_status E self ''llama2'' tr1 of
                   (Inl e, tr2) \<Rightarrow> (Inl e, tr2)
                 | (Inr (model_available, model_message), tr2) \<Rightarrow>
                     (let r2 = add_detail r1 ''model'' model_available model_message
                      in if \<not> model_available then (Inr (r2\<lparr>status := MODEL_NOT_LOADED\<rparr>), tr2)
                         else (Inr (r2\<lparr>status := CONNECTED\<rparr>), tr2)))))"

definition test_connection ::
  "env \<Rightarrow> OllamaTester \<Rightarrow> call list \<Rightarrow> (py_exception + results) \<times> call list" where
  "test_connection E self tr =
     (let r0 = \<lparr>timestamp = time_time E tr, status = UNKNOWN_ERROR, details = Map.empty\<rparr>
      in case check_internet_connectivity E tr of
           (Inl e, tr1) \<Rightarrow> (Inl e, tr1)
         | (Inr has_internet, tr1) \<Rightarrow>
             (let r1 = add_detail r0 ''internet'' has_internet
                         (if has_internet then ''Internet is available''
                          else ''No internet connection'')
              in if \<not> has_internet then (Inr (r1\<lparr>status := NO_INTERNET\<rparr>), tr1)
                 else if is_remote self
                 then
                   (case check_remote_server E self tr1 of
                      (Inl e, tr2) \<Rightarrow> (Inl e, tr2)
                    | (Inr (remote_available, remote_message), tr2) \<Rightarrow>
                        (let r2 = add_detail r1 ''remote'' remote_available remote_message
                         in if \<not> remote_available
                            then (Inr (r2\<lparr>status := REMOTE_SERVER_UNREACHABLE\<rparr>), tr2)
                            else test_connection_server E self r2 tr2))
                 else test_connection_server E self r1 tr1))"

definition endpoints :: "string list" where
  "endpoints = [''/api/tags'', ''/api/version'', ''/api/health'']"

text \<open>The \<^verbatim>\<open>for endpoint in endpoints\<close> loop of \<^verbatim>\<open>get_detailed_status\<close>.\<close>

fun test_endpoints ::
  "env \<Rightarrow> OllamaTester \<Rightarrow> string list \<Rightarrow> status_report \<Rightarrow> call list
     \<Rightarrow> (py_exception + status_report) \<times> call list" where
  "test_endpoints E self [] st tr = (Inr st, tr)"
| "test_endpoints E self (endpoint # rest) st tr =
     (case test_endpoint E self endpoint ''GET'' None tr of
        (Inl e, tr') \<Rightarrow> (Inl e, tr')
      | (Inr (success, msg), tr') \<Rightarrow>
          test_endpoints E self rest (st\<lparr>tests := (tests st)(endpoint \<mapsto> TestSuccess success msg)\<rparr>) tr')"

definition get_detailed_status ::
  "env \<Rightarrow> OllamaTester \<Rightarrow> call list \<Rightarrow> (py_exception + status_report) \<times> call list" where
  "get_detailed_status E self tr =
     (let st0 = \<lparr>sr_timestamp = time_time E tr, sr_base_url = base_url self,
                 sr_timeout = timeout self, sr_is_remote = is_remote self, tests = Map.empty\<rparr>
      in case check_internet_connectivity E tr of
           (Inl e, tr1) \<Rightarrow> (Inl e, tr1)
         | (Inr internet, tr1) \<Rightarrow>
             (let st1 = st0\<lparr>tests := (tests st0)(''internet'' \<mapsto> TestBool internet)\<rparr>
              in if is_remote self
                 then
                   (case check_remote_server E self tr1 of
                      (Inl e, tr2) \<Rightarrow> (Inl e, tr2)
                    | (Inr (remote_available, remote_message), tr2) \<Rightarrow>
                        test_endpoints E self endpoints
                          (st1\<lparr>tests := (tests st1)(''remote'' \<mapsto>
                                  TestAvailable remote_available remote_message)\<rparr>) tr2)
                 else test_endpoints E self endpoints st1 tr1))"

subsection \<open>The specification's notions\<close>






text \<open>
  The specification's model lookup: the body's \<open>models\<close> array contains an entry whose
  \<open>name\<close> field is exactly the queried name.
\<close>

fun named :: "string \<Rightarrow> json \<Rightarrow> bool" where
  "named n (JObject members) = (map_of members ''name'' = Some (JString n))"
| "named n v = False"

definition has_model_named :: "json \<Rightarrow> string \<Rightarrow> bool" where
  "has_model_named body n =
     (case body of
        JObject kvs \<Rightarrow>
          (case map_of kvs ''models'' of Some (JArray ms) \<Rightarrow> list_ex (named n) ms | _ \<Rightarrow> False)
      | _ \<Rightarrow> False)"

text \<open>
  The shape the specification expects of the body: an object whose \<open>models\<close> member, when
  there is one, is an array of objects.
\<close>

fun is_object :: "json \<Rightarrow> bool" where
  "is_object (JObject members) = True"
| "is_object v = False"

definition tags_shaped :: "json \<Rightarrow> bool" where
  "tags_shaped body =
     (case body of
        JObject kvs \<Rightarrow>
          (case map_of kvs ''models'' of
             None \<Rightarrow> True
           | Some (JArray ms) \<Rightarrow> list_all is_object ms
           | Some v \<Rightarrow> False)
      | _ \<Rightarrow> False)"

subsection \<open>Fixtures\<close>

text \<open>
  Concrete testers and collaborators, for evaluating the procedures: a loopback tester, a
  remote tester, a world in which every collaborator succeeds and the server lists the
  model \<open>llama2\<close>, and variations of it.
\<close>

definition local_tester :: OllamaTester where
  "local_tester = \<lparr>base_url = ''http://localhost:11434'', timeout = 30, is_remote = False\<rparr>"

definition remote_tester :: OllamaTester where
  "remote_tester = \<lparr>base_url = ''http://example.com:11434'', timeout = 30, is_remote = True\<rparr>"

definition tags_body :: "json list \<Rightarrow> json" where
  "tags_body ms = JObject [(''models'', JArray ms)]"

definition ok_response :: "json \<Rightarrow> response" where
  "ok_response body = \<lparr>status_code = 200, json_body = Inr body\<rparr>"

definition good_env :: env where
  "good_env =
     \<lparr>create_connection = (\<lambda>tr a p t. Inr ()),
      gethostbyname = (\<lambda>tr h. Inr (IPv4 93 184 216 34)),
      subprocess_run = (\<lambda>tr cmd t. Inr \<lparr>returncode = 0, stderr = []\<rparr>),
      requests_request =
        (\<lambda>tr m u d t. Inr (ok_response (tags_body [JObject [(''name'', JString ''llama2'')]]))),
      urlparse_hostname =
        (\<lambda>u. if u = ''http://localhost:11434'' then Inr (Some ''localhost'')
             else Inr (Some ''example.com'')),
      platform_system = ''Linux'',
      time_time = (\<lambda>tr. 0)\<rparr>"

definition offline_env :: env where
  "offline_env =
     good_env\<lparr>create_connection := (\<lambda>tr a p t. Inl (PyExc OSError ''Network is unreachable''))\<rparr>"

definition unreachable_env :: env where
  "unreachable_env =
     good_env\<lparr>subprocess_run :=
       (\<lambda>tr cmd t. Inr \<lparr>returncode = 1, stderr = ''Destination Host Unreachable''\<rparr>)\<rparr>"

definition raising_env :: "py_exception \<Rightarrow> env" where
  "raising_env e =
     good_env\<lparr>requests_request := (\<lambda>tr m u d t. Inl e), subprocess_run := (\<lambda>tr cmd t. Inl e)\<rparr>"

definition refused_env :: env where
  "refused_env = raising_env (PyExc Req_ConnectionError ''Connection refused'')"

definition body_env :: "json \<Rightarrow> env" where
  "body_env body = good_env\<lparr>requests_request := (\<lambda>tr m u d t. Inr (ok_response body))\<rparr>"

definition status_env :: "int \<Rightarrow> env" where
  "status_env code =
     good_env\<lparr>requests_request :=
       (\<lambda>tr m u d t.
          Inr \<lparr>status_code = code, json_body = Inl (PyExc Req_JSONDecodeError ''Expecting value'')\<rparr>)\<rparr>"

definition failing_env :: env where
  "failing_env =
     good_env\<lparr>create_connection := (\<lambda>tr a p t. Inl (PyExc OSError ''Network is unreachable'')),
              subprocess_run := (\<lambda>tr cmd t. Inl (PyExc TimeoutExpired ''timed out'')),
              requests_request :=
                (\<lambda>tr m u d t.
                   if u = ''http://example.com:11434/api/tags''
                   then Inl (PyExc Req_ReadTimeout ''Read timed out'')
                   else if u = ''http://example.com:11434/api/version''
                   then Inr \<lparr>status_code = 404,
                             json_body = Inl (PyExc Req_JSONDecodeError ''Expecting value'')\<rparr>
                   else Inr \<lparr>status_code = 503,
                             json_body = Inl (PyExc Req_JSONDecodeError ''Expecting value'')\<rparr>)\<rparr>"

definition lan_env :: env where
  "lan_env =
     good_env\<lparr>gethostbyname :=
       (\<lambda>tr h. if h = ''example.com'' then Inr (IPv4 172 20 1 5)
               else Inl (PyExc Gaierror ''Name or service not known'')),
       urlparse_hostname :=
         (\<lambda>u. if u = ''http://example.com:11434'' then Inr (Some ''example.com'')
              else Inr (Some ''nowhere.invalid''))\<rparr>"

section \<open>Properties\<close>

subsection \<open>Evaluating the fixtures\<close>

lemmas fixture_defs = good_env_def offline_env_def unreachable_env_def raising_env_def
  refused_env_def body_env_def status_env_def failing_env_def lan_env_def
  local_tester_def remote_tester_def tags_body_def ok_response_def

lemmas check_defs = check_internet_connectivity_def check_remote_server_def ping_host_def
  ping_cmd_def ping_except_def check_server_availability_def check_model_status_def
  model_listed_def request_except_def startswith_any_def startswith_def fmt_opt_def lower_def
  lower_char_def

lemma str_int_codes:
  "str_int 4 = ''4''" "str_int 200 = ''200''" "str_int 401 = ''401''" "str_int 404 = ''404''"
  "str_int 418 = ''418''" "str_int 500 = ''500''" "str_int 503 = ''503''"
  by (simp_all add: str_int_def str_nat.simps digit_char_def)

subsection \<open>The short-circuit on a failed internet check\<close>

text \<open>
  C1. Whenever \<^verbatim>\<open>check_internet_connectivity\<close> returns false, \<^verbatim>\<open>test_connection\<close>
  returns a report with status \<open>NO_INTERNET\<close> whose details have the single key
  \<open>internet\<close>, whatever the tester and whatever the other collaborators would answer;
  no call to the outside world is made after the internet check.
\<close>

theorem test_connection_no_internet:
  assumes "fst (check_internet_connectivity E tr) = Inr False"
  shows "\<exists>r. fst (test_connection E self tr) = Inr r \<and> status r = NO_INTERNET
           \<and> dom (details r) = {''internet''}
           \<and> snd (test_connection E self tr) = snd (check_internet_connectivity E tr)"
proof -
  obtain tr1 where c: "check_internet_connectivity E tr = (Inr False, tr1)"
    using assms by (cases "check_internet_connectivity E tr") auto
  show ?thesis
    by (simp add: test_connection_def c add_detail_def)
qed

theorem test_connection_no_internet_witness:
  "fst (check_internet_connectivity offline_env []) = Inr False
   \<and> (\<exists>r. fst (test_connection offline_env remote_tester []) = Inr r \<and> status r = NO_INTERNET
           \<and> dom (details r) = {''internet''}
           \<and> snd (test_connection offline_env remote_tester []) = [CreateConnection ''8.8.8.8'' 53 3])"
proof -
  have h: "fst (check_internet_connectivity offline_env []) = Inr False"
    by (simp add: check_internet_connectivity_def offline_env_def good_env_def)
  have t: "snd (check_internet_connectivity offline_env []) = [CreateConnection ''8.8.8.8'' 53 3]"
    by (simp add: check_internet_connectivity_def offline_env_def good_env_def)
  show ?thesis
    using h test_connection_no_internet [OF h, of remote_tester] by (simp add: t)
qed

subsection \<open>Rendering numbers and matching prefixes\<close>























subsection \<open>Locality of the base URL\<close>



subsection \<open>The model lookup\<close>

lemma named_iff: "named n m = (py_get m ''name'' JNull = Inr (JString n))"
  by (cases m) (auto simp: no_attribute_def split: option.splits)

lemma scan_models_True: "scan_models ms n = Inr True \<Longrightarrow> list_ex (named n) ms"
  by (induction ms) (auto simp: named_iff split: sum.splits if_splits)

lemma scan_models_objects:
  "list_all is_object ms \<Longrightarrow> scan_models ms n = Inr (list_ex (named n) ms)"
proof (induction ms)
  case Nil
  show ?case by simp
next
  case (Cons m ms)
  then obtain members where m: "m = JObject members"
    by (cases m) auto
  from Cons show ?case
    by (auto simp: m split: option.splits)
qed

lemma scan_models_no_object:
  "list_all (\<lambda>m. \<not> is_object m) ms \<Longrightarrow> scan_models ms n \<noteq> Inr True"
  by (cases ms; cases "hd ms") (auto simp: no_attribute_def)

lemma model_listed_True:
  assumes "model_listed resp n = Inr True"
  shows "\<exists>body. json_body resp = Inr body \<and> has_model_named body n"
proof -
  from assms obtain body where body: "json_body resp = Inr body"
    by (auto simp: model_listed_def split: sum.splits)
  from assms body obtain kvs where kvs: "body = JObject kvs"
    by (cases body) (auto simp: model_listed_def)
  from assms body kvs obtain v where v: "map_of kvs ''models'' = Some v"
    by (cases "map_of kvs ''models''") (auto simp: model_listed_def)
  have iter: "\<exists>ms. py_iter v = Inr ms \<and> scan_models ms n = Inr True"
    using assms body kvs v by (auto simp: model_listed_def split: sum.splits)
  have "\<exists>ms. v = JArray ms \<and> scan_models ms n = Inr True"
  proof (cases v)
    case (JArray ms)
    with iter show ?thesis by simp
  next
    case (JObject members)
    have "list_all (\<lambda>m. \<not> is_object m) (map JString (remdups (map fst members)))"
      by (simp add: list_all_iff)
    from scan_models_no_object [OF this] iter JObject show ?thesis by simp
  next
    case (JString s)
    have "list_all (\<lambda>m. \<not> is_object m) (map (\<lambda>c. JString [c]) s)"
      by (simp add: list_all_iff)
    from scan_models_no_object [OF this] iter JString show ?thesis by simp
  qed (use iter in auto)
  then show ?thesis
    using body kvs v by (auto simp: has_model_named_def dest: scan_models_True)
qed

lemma model_listed_shaped:
  assumes "json_body resp = Inr body" and "tags_shaped body"
  shows "model_listed resp n = Inr (has_model_named body n)"
proof -
  from assms(2) obtain kvs where kvs: "body = JObject kvs"
    by (cases body) (auto simp: tags_shaped_def)
  show ?thesis
  proof (cases "map_of kvs ''models''")
    case None
    with assms(1) kvs show ?thesis
      by (simp add: model_listed_def has_model_named_def)
  next
    case (Some v)
    with assms(2) kvs obtain ms where ms: "v = JArray ms" "list_all is_object ms"
      by (cases v) (auto simp: tags_shaped_def)
    with assms(1) kvs Some show ?thesis
      by (simp add: model_listed_def has_model_named_def scan_models_objects)
  qed
qed

text \<open>
  C3, for bodies of the expected shape. \<^verbatim>\<open>check_model_status\<close> returns \<open>(True, ...)\<close> only if the request
  to \<open>/api/tags\<close> is answered with status 200 and the body's \<open>models\<close> array contains an
  entry whose \<open>name\<close> is exactly the queried name. When the body has the expected shape
  (an object whose \<open>models\<close> member, if present, is an array of objects) the result is
  \<open>(True, ...)\<close> if such an entry exists and \<open>(False, ...)\<close> with the not-loaded message
  otherwise. A status other than 200 and a \<^verbatim>\<open>RequestException\<close> give \<open>(False, ...)\<close>.
\<close>

theorem check_model_status_shaped:
  fixes E self model_name tr
  defines "answer \<equiv> requests_request E tr ''get'' (base_url self @ ''/api/tags'') None (timeout self)"
    and "result \<equiv> fst (check_model_status E self model_name tr)"
  shows "(\<forall>m. result = Inr (True, m)
            \<longrightarrow> (\<exists>resp body. answer = Inr resp \<and> status_code resp = 200
                   \<and> json_body resp = Inr body \<and> has_model_named body model_name))
       \<and> (\<forall>resp body. answer = Inr resp \<and> status_code resp = 200 \<and> json_body resp = Inr body
              \<and> tags_shaped body
            \<longrightarrow> result = (if has_model_named body model_name
                          then Inr (True, ''Model '' @ model_name @ '' is available'')
                          else Inr (False, ''Model '' @ model_name @ '' is not loaded'')))
       \<and> (\<forall>resp. answer = Inr resp \<and> status_code resp \<noteq> 200
            \<longrightarrow> result = Inr (False, ''Failed to check model status: '' @ str_int (status_code resp)))
       \<and> (\<forall>resp e. answer = Inr resp \<and> status_code resp = 200 \<and> json_body resp = Inl e
              \<and> is_RequestException (exc_cls e)
            \<longrightarrow> result = Inr (False, ''Error checking model status: '' @ exc_str e))
       \<and> (\<forall>e. answer = Inl e \<and> is_RequestException (exc_cls e)
            \<longrightarrow> result = Inr (False, ''Error checking model status: '' @ exc_str e))"
proof (intro conjI allI impI)
  fix m
  assume "result = Inr (True, m)"
  then obtain resp where r: "answer = Inr resp" "status_code resp = 200"
      "model_listed resp model_name = Inr True"
    unfolding result_def answer_def
    by (auto simp: check_model_status_def Let_def request_except_def
        split: sum.splits if_splits)
  with model_listed_True [OF r(3)]
  show "\<exists>resp body. answer = Inr resp \<and> status_code resp = 200
          \<and> json_body resp = Inr body \<and> has_model_named body model_name"
    by blast
next
  fix resp body
  assume "answer = Inr resp \<and> status_code resp = 200 \<and> json_body resp = Inr body
            \<and> tags_shaped body"
  then show "result = (if has_model_named body model_name
                          then Inr (True, ''Model '' @ model_name @ '' is available'')
                          else Inr (False, ''Model '' @ model_name @ '' is not loaded''))"
    unfolding result_def answer_def
    by (simp add: check_model_status_def model_listed_shaped)
next
  fix resp
  assume "answer = Inr resp \<and> status_code resp \<noteq> 200"
  then show "result = Inr (False, ''Failed to check model status: '' @ str_int (status_code resp))"
    unfolding result_def answer_def by (simp add: check_model_status_def)
next
  fix resp e
  assume "answer = Inr resp \<and> status_code resp = 200 \<and> json_body resp = Inl e
              \<and> is_RequestException (exc_cls e)"
  then show "result = Inr (False, ''Error checking model status: '' @ exc_str e)"
    unfolding result_def answer_def
    by (simp add: check_model_status_def model_listed_def request_except_def)
next
  fix e
  assume "answer = Inl e \<and> is_RequestException (exc_cls e)"
  then show "result = Inr (False, ''Error checking model status: '' @ exc_str e)"
    unfolding result_def answer_def
    by (simp add: check_model_status_def request_except_def)
qed

theorem check_model_status_shaped_witness:
  "fst (check_model_status
          (body_env (tags_body [JObject [(''name'', JString ''llama2:latest'')],
                                JObject [(''name'', JString ''Llama2'')],
                                JObject [(''name'', JString ''llama2'')]]))
          local_tester ''llama2'' [])
     = Inr (True, ''Model llama2 is available'')
   \<and> fst (check_model_status
          (body_env (tags_body [JObject [(''name'', JString ''llama2:latest'')],
                                JObject [(''name'', JString ''Llama2'')],
                                JObject [(''name'', JString '' llama2'')]]))
          local_tester ''llama2'' [])
     = Inr (False, ''Model llama2 is not loaded'')
   \<and> fst (check_model_status (status_env 500) local_tester ''llama2'' [])
     = Inr (False, ''Failed to check model status: 500'')
   \<and> fst (check_model_status refused_env local_tester ''llama2'' [])
     = Inr (False, ''Error checking model status: Connection refused'')"
proof -
  let ?b1 = "tags_body [JObject [(''name'', JString ''llama2:latest'')],
                        JObject [(''name'', JString ''Llama2'')],
                        JObject [(''name'', JString ''llama2'')]]"
  let ?b2 = "tags_body [JObject [(''name'', JString ''llama2:latest'')],
                        JObject [(''name'', JString ''Llama2'')],
                        JObject [(''name'', JString '' llama2'')]]"
  have 1: "fst (check_model_status (body_env ?b1) local_tester ''llama2'' [])
      = Inr (True, ''Model llama2 is available'')"
    using check_model_status_shaped [where E = "body_env ?b1" and tr = "[]" and self = local_tester
        and model_name = "''llama2''"]
    by (simp add: fixture_defs tags_shaped_def has_model_named_def)
  have 2: "fst (check_model_status (body_env ?b2) local_tester ''llama2'' [])
      = Inr (False, ''Model llama2 is not loaded'')"
    using check_model_status_shaped [where E = "body_env ?b2" and tr = "[]" and self = local_tester
        and model_name = "''llama2''"]
    by (simp add: fixture_defs tags_shaped_def has_model_named_def)
  have 3: "fst (check_model_status (status_env 500) local_tester ''llama2'' [])
      = Inr (False, ''Failed to check model status: 500'')"
    using check_model_status_shaped [where E = "status_env 500" and tr = "[]" and self = local_tester
        and model_name = "''llama2''"]
    by (simp add: fixture_defs str_int_codes)
  have 4: "fst (check_model_status refused_env local_tester ''llama2'' [])
      = Inr (False, ''Error checking model status: Connection refused'')"
    using check_model_status_shaped [where E = refused_env and tr = "[]" and self = local_tester
        and model_name = "''llama2''"]
    by (simp add: fixture_defs)
  from 1 2 3 4 show ?thesis by simp
qed

text \<open>
  The claim without the condition on the shape fails: a server that answers 200 with
  \<^verbatim>\<open>{"models": null}\<close> lists no model, and the loop over \<^verbatim>\<open>None\<close> raises a
  \<^verbatim>\<open>TypeError\<close> that the \<^verbatim>\<open>except\<close> clause does not catch, so no \<open>(False, ...)\<close>
  is returned.
\<close>

theorem check_model_status_null_models:
  "requests_request (body_env (JObject [(''models'', JNull)])) [] ''get''
       (base_url local_tester @ ''/api/tags'') None (timeout local_tester)
     = Inr \<lparr>status_code = 200, json_body = Inr (JObject [(''models'', JNull)])\<rparr>
   \<and> \<not> has_model_named (JObject [(''models'', JNull)]) ''llama2''
   \<and> fst (check_model_status (body_env (JObject [(''models'', JNull)])) local_tester ''llama2'' [])
       = Inl (PyExc TypeError (quoted ''NoneType'' @ '' object is not iterable''))
   \<and> \<not> (\<exists>m. fst (check_model_status (body_env (JObject [(''models'', JNull)]))
                    local_tester ''llama2'' []) = Inr (False, m))"
  by (simp add: fixture_defs check_defs has_model_named_def)

text \<open>
  C10. When the server answers 200 with a JSON object that has no \<open>models\<close> member, the
  lookup runs over the empty default list and \<^verbatim>\<open>check_model_status\<close> returns
  \<open>(False, ...)\<close> with the not-loaded message.
\<close>

theorem check_model_status_missing_models:
  assumes "requests_request E tr ''get'' (base_url self @ ''/api/tags'') None (timeout self) = Inr resp"
    and "status_code resp = 200"
    and "json_body resp = Inr (JObject kvs)"
    and "map_of kvs ''models'' = None"
  shows "fst (check_model_status E self model_name tr)
           = Inr (False, ''Model '' @ model_name @ '' is not loaded'')"
  using assms by (simp add: check_model_status_def model_listed_def)

theorem check_model_status_missing_models_witness:
  "fst (check_model_status (body_env (JObject [(''version'', JString ''0.1.0'')]))
          local_tester ''llama2'' [])
     = Inr (False, ''Model llama2 is not loaded'')"
  using check_model_status_missing_models
    [where E = "body_env (JObject [(''version'', JString ''0.1.0'')])" and tr = "[]"
       and self = local_tester
       and resp = "ok_response (JObject [(''version'', JString ''0.1.0'')])"
       and kvs = "[(''version'', JString ''0.1.0'')]" and model_name = "''llama2''"]
  by (simp add: fixture_defs)

subsection \<open>The status-code policy of \<^verbatim>\<open>test_endpoint\<close>\<close>

text \<open>
  C2. For every endpoint, method and body, the result of \<^verbatim>\<open>test_endpoint\<close> is fixed
  by the answer to its one request: status 401 gives \<open>(False, "Authentication failed")\<close>,
  404 gives \<open>(False, "Endpoint not found")\<close>, a status of 500 or more gives the server-error
  message with the code, any other status of 400 or more gives the request-failed message
  with the code, and every status below 400 gives \<open>(True, ...)\<close> with the success message.
  A \<^verbatim>\<open>Timeout\<close> exception gives \<open>(False, "Request timed out")\<close>; any other
  \<^verbatim>\<open>RequestException\<close> gives the request-failed message with the exception's text.
\<close>

theorem test_endpoint_policy:
  fixes E self endpoint http_method json_data tr
  defines "answer \<equiv> requests_request E tr http_method (base_url self @ endpoint) json_data (timeout self)"
    and "result \<equiv> fst (test_endpoint E self endpoint http_method json_data tr)"
  shows "(\<forall>resp. answer = Inr resp \<and> status_code resp = 401
            \<longrightarrow> result = Inr (False, ''Authentication failed''))
       \<and> (\<forall>resp. answer = Inr resp \<and> status_code resp = 404
            \<longrightarrow> result = Inr (False, ''Endpoint not found''))
       \<and> (\<forall>resp. answer = Inr resp \<and> status_code resp \<ge> 500
            \<longrightarrow> result = Inr (False, ''Server error: '' @ str_int (status_code resp)))
       \<and> (\<forall>resp. answer = Inr resp \<and> status_code resp \<ge> 400 \<and> status_code resp < 500
              \<and> status_code resp \<noteq> 401 \<and> status_code resp \<noteq> 404
            \<longrightarrow> result = Inr (False, ''Request failed: '' @ str_int (status_code resp)))
       \<and> (\<forall>resp. answer = Inr resp \<and> status_code resp < 400
            \<longrightarrow> result = Inr (True, ''Endpoint test successful: '' @ str_int (status_code resp)))
       \<and> (\<forall>e. answer = Inl e \<and> is_Req_Timeout (exc_cls e)
            \<longrightarrow> result = Inr (False, ''Request timed out''))
       \<and> (\<forall>e. answer = Inl e \<and> is_RequestException (exc_cls e) \<and> \<not> is_Req_Timeout (exc_cls e)
            \<longrightarrow> result = Inr (False, ''Request failed: '' @ exc_str e))"
  unfolding answer_def result_def
  by (simp add: test_endpoint_def request_except_def)

theorem test_endpoint_policy_witness:
  "fst (test_endpoint (status_env 401) local_tester ''/api/tags'' ''GET'' None [])
     = Inr (False, ''Authentication failed'')
   \<and> fst (test_endpoint (status_env 404) local_tester ''/api/tags'' ''GET'' None [])
     = Inr (False, ''Endpoint not found'')
   \<and> fst (test_endpoint (status_env 503) local_tester ''/api/tags'' ''GET'' None [])
     = Inr (False, ''Server error: 503'')
   \<and> fst (test_endpoint (status_env 418) local_tester ''/api/tags'' ''GET'' None [])
     = Inr (False, ''Request failed: 418'')
   \<and> fst (test_endpoint (status_env 200) local_tester ''/api/tags'' ''GET'' None [])
     = Inr (True, ''Endpoint test successful: 200'')
   \<and> fst (test_endpoint (raising_env (PyExc Req_ReadTimeout ''Read timed out'')) local_tester
            ''/api/tags'' ''GET'' None [])
     = Inr (False, ''Request timed out'')
   \<and> fst (test_endpoint refused_env local_tester ''/api/tags'' ''GET'' None [])
     = Inr (False, ''Request failed: Connection refused'')"
proof -
  note inst = test_endpoint_policy [where self = local_tester and endpoint = "''/api/tags''"
      and http_method = "''GET''" and json_data = None and tr = "[]"]
  have 1: "fst (test_endpoint (status_env 401) local_tester ''/api/tags'' ''GET'' None [])
     = Inr (False, ''Authentication failed'')"
    using inst [where E = "status_env 401"] by (simp add: fixture_defs)
  have 2: "fst (test_endpoint (status_env 404) local_tester ''/api/tags'' ''GET'' None [])
     = Inr (False, ''Endpoint not found'')"
    using inst [where E = "status_env 404"] by (simp add: fixture_defs)
  have 3: "fst (test_endpoint (status_env 503) local_tester ''/api/tags'' ''GET'' None [])
     = Inr (False, ''Server error: 503'')"
    using inst [where E = "status_env 503"] by (simp add: fixture_defs str_int_codes)
  have 4: "fst (test_endpoint (status_env 418) local_tester ''/api/tags'' ''GET'' None [])
     = Inr (False, ''Request failed: 418'')"
    using inst [where E = "status_env 418"] by (simp add: fixture_defs str_int_codes)
  have 5: "fst (test_endpoint (status_env 200) local_tester ''/api/tags'' ''GET'' None [])
     = Inr (True, ''Endpoint test successful: 200'')"
    using inst [where E = "status_env 200"] by (simp add: fixture_defs str_int_codes)
  have 6: "fst (test_endpoint (raising_env (PyExc Req_ReadTimeout ''Read timed out'')) local_tester
            ''/api/tags'' ''GET'' None [])
     = Inr (False, ''Request timed out'')"
    using inst [where E = "raising_env (PyExc Req_ReadTimeout ''Read timed out'')"]
    by (simp add: fixture_defs)
  have 7: "fst (test_endpoint refused_env local_tester ''/api/tags'' ''GET'' None [])
     = Inr (False, ''Request failed: Connection refused'')"
    using inst [where E = refused_env] by (simp add: fixture_defs)
  from 1 2 3 4 5 6 7 show ?thesis by simp
qed

subsection \<open>The composite diagnosis\<close>

text \<open>
  C5. For a remote tester, when the internet check succeeds and \<^verbatim>\<open>ping_host\<close> on the
  base URL's hostname fails, \<^verbatim>\<open>test_connection\<close> returns status
  \<open>REMOTE_SERVER_UNREACHABLE\<close>; its details have the keys \<open>internet\<close> and \<open>remote\<close> and
  neither \<open>server\<close> nor \<open>model\<close>, and nothing is called after the ping.
\<close>

theorem test_connection_remote_unreachable:
  assumes "is_remote self"
    and "check_internet_connectivity E tr = (Inr True, tr1)"
    and "urlparse_hostname E (base_url self) = Inr host"
    and "ping_host E self host 4 tr1 = (Inr (False, m), tr2)"
  shows "\<exists>r. test_connection E self tr = (Inr r, tr2) \<and> status r = REMOTE_SERVER_UNREACHABLE
           \<and> ''internet'' \<in> dom (details r) \<and> ''remote'' \<in> dom (details r)
           \<and> ''server'' \<notin> dom (details r) \<and> ''model'' \<notin> dom (details r)"
  using assms by (simp add: test_connection_def check_remote_server_def add_detail_def)

theorem test_connection_remote_unreachable_witness:
  "\<exists>r. test_connection unreachable_env remote_tester []
         = (Inr r, [CreateConnection ''8.8.8.8'' 53 3,
                    SubprocessRun [Some ''ping'', Some ''-c'', Some ''4'', Some ''example.com''] 30])
       \<and> status r = REMOTE_SERVER_UNREACHABLE
       \<and> ''internet'' \<in> dom (details r) \<and> ''remote'' \<in> dom (details r)
       \<and> ''server'' \<notin> dom (details r) \<and> ''model'' \<notin> dom (details r)"
proof -
  have remote: "is_remote remote_tester"
    by (simp add: remote_tester_def)
  have internet: "check_internet_connectivity unreachable_env []
      = (Inr True, [CreateConnection ''8.8.8.8'' 53 3])"
    by (simp add: fixture_defs check_defs)
  have host: "urlparse_hostname unreachable_env (base_url remote_tester) = Inr (Some ''example.com'')"
    by (simp add: fixture_defs)
  have ping: "ping_host unreachable_env remote_tester (Some ''example.com'') 4
        [CreateConnection ''8.8.8.8'' 53 3]
      = (Inr (False, ''Failed to ping example.com: Destination Host Unreachable''),
         [CreateConnection ''8.8.8.8'' 53 3,
          SubprocessRun [Some ''ping'', Some ''-c'', Some ''4'', Some ''example.com''] 30])"
    by (simp add: fixture_defs check_defs str_int_codes)
  show ?thesis
    using test_connection_remote_unreachable [OF remote internet host ping] by simp
qed

lemmas connection_defs = test_connection_def test_connection_server_def add_detail_def

lemma run_connected:
  "\<exists>r tr'. test_connection good_env local_tester [] = (Inr r, tr') \<and> status r = CONNECTED"
  by (simp add: connection_defs fixture_defs check_defs)

lemma run_no_internet:
  "\<exists>r tr'. test_connection offline_env local_tester [] = (Inr r, tr') \<and> status r = NO_INTERNET"
  by (simp add: connection_defs fixture_defs check_defs)

lemma run_remote_unreachable:
  "\<exists>r tr'. test_connection unreachable_env remote_tester [] = (Inr r, tr')
     \<and> status r = REMOTE_SERVER_UNREACHABLE"
  by (simp add: connection_defs fixture_defs check_defs)

lemma run_server_unreachable:
  "\<exists>r tr'. test_connection refused_env local_tester [] = (Inr r, tr')
     \<and> status r = SERVER_UNREACHABLE"
  by (simp add: connection_defs fixture_defs check_defs)

lemma run_model_not_loaded:
  "\<exists>r tr'. test_connection (body_env (tags_body [])) local_tester [] = (Inr r, tr')
     \<and> status r = MODEL_NOT_LOADED"
  by (simp add: connection_defs fixture_defs check_defs)

lemma test_connection_status_cases:
  "test_connection E self tr = (Inr r, tr') \<Longrightarrow>
     status r \<in> {CONNECTED, NO_INTERNET, REMOTE_SERVER_UNREACHABLE, SERVER_UNREACHABLE,
                 MODEL_NOT_LOADED}"
  by (auto simp: connection_defs Let_def split: prod.splits sum.splits if_splits)

text \<open>
  C6. The statuses that \<^verbatim>\<open>test_connection\<close> can return, over all collaborators,
  testers and histories, are exactly \<open>CONNECTED\<close>, \<open>NO_INTERNET\<close>,
  \<open>REMOTE_SERVER_UNREACHABLE\<close>, \<open>SERVER_UNREACHABLE\<close> and \<open>MODEL_NOT_LOADED\<close>: each of the
  five is returned in some run, and \<open>AUTHENTICATION_FAILED\<close>, \<open>TIMEOUT\<close>,
  \<open>RESOURCE_UNAVAILABLE\<close> and the initial value \<open>UNKNOWN_ERROR\<close> never are.
\<close>

theorem test_connection_statuses:
  "{s. \<exists>E self tr r tr'. test_connection E self tr = (Inr r, tr') \<and> status r = s}
     = {CONNECTED, NO_INTERNET, REMOTE_SERVER_UNREACHABLE, SERVER_UNREACHABLE, MODEL_NOT_LOADED}"
proof
  show "{s. \<exists>E self tr r tr'. test_connection E self tr = (Inr r, tr') \<and> status r = s}
     \<subseteq> {CONNECTED, NO_INTERNET, REMOTE_SERVER_UNREACHABLE, SERVER_UNREACHABLE, MODEL_NOT_LOADED}"
    using test_connection_status_cases by blast
next
  show "{CONNECTED, NO_INTERNET, REMOTE_SERVER_UNREACHABLE, SERVER_UNREACHABLE, MODEL_NOT_LOADED}
     \<subseteq> {s. \<exists>E self tr r tr'. test_connection E self tr = (Inr r, tr') \<and> status r = s}"
    using run_connected run_no_internet run_remote_unreachable run_server_unreachable
      run_model_not_loaded by blast
qed

subsection \<open>Exceptions inside the checks\<close>









lemma is_Req_Timeout_RequestException: "is_Req_Timeout c \<Longrightarrow> is_RequestException c"
  by (cases c) simp_all



subsection \<open>The detailed status report\<close>

lemma test_endpoint_trace:
  "snd (test_endpoint E self endpoint method data tr)
     = tr @ [HttpRequest method (base_url self @ endpoint) data (timeout self)]"
  by (simp add: test_endpoint_def Let_def request_except_def split: sum.splits)

text \<open>
  C8. \<^verbatim>\<open>get_detailed_status\<close> runs the internet check, then
  \<^verbatim>\<open>check_remote_server\<close> exactly when the tester is remote, then \<^verbatim>\<open>test_endpoint\<close>
  on \<open>/api/tags\<close>, \<open>/api/version\<close> and \<open>/api/health\<close> in this order, each on the history
  the previous one left. Whatever the results are, failures included, all of them are in
  the \<open>tests\<close> mapping of the report, and the three requests are the last three calls made.
\<close>

theorem get_detailed_status_runs_all:
  assumes internet: "check_internet_connectivity E tr = (Inr i, tr1)"
    and remote: "if is_remote self then check_remote_server E self tr1 = (Inr (ra, rm), tr2)
                 else tr2 = tr1"
    and tags: "test_endpoint E self ''/api/tags'' ''GET'' None tr2 = (Inr (s1, m1), tr3)"
    and version: "test_endpoint E self ''/api/version'' ''GET'' None tr3 = (Inr (s2, m2), tr4)"
    and health: "test_endpoint E self ''/api/health'' ''GET'' None tr4 = (Inr (s3, m3), tr5)"
  shows "\<exists>st. get_detailed_status E self tr = (Inr st, tr5)
           \<and> tests st =
               (if is_remote self
                then [''internet'' \<mapsto> TestBool i, ''remote'' \<mapsto> TestAvailable ra rm,
                      ''/api/tags'' \<mapsto> TestSuccess s1 m1, ''/api/version'' \<mapsto> TestSuccess s2 m2,
                      ''/api/health'' \<mapsto> TestSuccess s3 m3]
                else [''internet'' \<mapsto> TestBool i,
                      ''/api/tags'' \<mapsto> TestSuccess s1 m1, ''/api/version'' \<mapsto> TestSuccess s2 m2,
                      ''/api/health'' \<mapsto> TestSuccess s3 m3])
           \<and> tr5 = tr2 @ [HttpRequest ''GET'' (base_url self @ ''/api/tags'') None (timeout self),
                           HttpRequest ''GET'' (base_url self @ ''/api/version'') None (timeout self),
                           HttpRequest ''GET'' (base_url self @ ''/api/health'') None (timeout self)]"
proof -
  have t3: "tr3 = tr2 @ [HttpRequest ''GET'' (base_url self @ ''/api/tags'') None (timeout self)]"
    using test_endpoint_trace [of E self "''/api/tags''" "''GET''" None tr2] tags by simp
  have t4: "tr4 = tr3 @ [HttpRequest ''GET'' (base_url self @ ''/api/version'') None (timeout self)]"
    using test_endpoint_trace [of E self "''/api/version''" "''GET''" None tr3] version by simp
  have t5: "tr5 = tr4 @ [HttpRequest ''GET'' (base_url self @ ''/api/health'') None (timeout self)]"
    using test_endpoint_trace [of E self "''/api/health''" "''GET''" None tr4] health by simp
  have tr: "tr5 = tr2 @ [HttpRequest ''GET'' (base_url self @ ''/api/tags'') None (timeout self),
                           HttpRequest ''GET'' (base_url self @ ''/api/version'') None (timeout self),
                           HttpRequest ''GET'' (base_url self @ ''/api/health'') None (timeout self)]"
    by (simp add: t3 t4 t5)
  have loop: "\<And>st. test_endpoints E self endpoints st tr2
     = (Inr (st\<lparr>tests := (tests st)(''/api/tags'' \<mapsto> TestSuccess s1 m1,
                                      ''/api/version'' \<mapsto> TestSuccess s2 m2,
                                      ''/api/health'' \<mapsto> TestSuccess s3 m3)\<rparr>), tr5)"
    by (simp add: endpoints_def tags version health)
  show ?thesis
  proof (cases "is_remote self")
    case True
    with remote have "check_remote_server E self tr1 = (Inr (ra, rm), tr2)" by simp
    with True internet loop tr show ?thesis
      by (simp add: get_detailed_status_def)
  next
    case False
    with remote have "tr2 = tr1" by simp
    with False internet loop tr show ?thesis
      by (simp add: get_detailed_status_def)
  qed
qed

theorem get_detailed_status_runs_all_witness:
  "\<exists>st. get_detailed_status failing_env remote_tester []
          = (Inr st,
             [CreateConnection ''8.8.8.8'' 53 3,
              SubprocessRun [Some ''ping'', Some ''-c'', Some ''4'', Some ''example.com''] 30,
              HttpRequest ''GET'' ''http://example.com:11434/api/tags'' None 30,
              HttpRequest ''GET'' ''http://example.com:11434/api/version'' None 30,
              HttpRequest ''GET'' ''http://example.com:11434/api/health'' None 30])
      \<and> tests st =
           [''internet'' \<mapsto> TestBool False,
            ''remote'' \<mapsto>
               TestAvailable False ''Remote server ping failed: Ping timeout for example.com'',
            ''/api/tags'' \<mapsto> TestSuccess False ''Request timed out'',
            ''/api/version'' \<mapsto> TestSuccess False ''Endpoint not found'',
            ''/api/health'' \<mapsto> TestSuccess False ''Server error: 503'']"
proof -
  let ?t1 = "[CreateConnection ''8.8.8.8'' 53 3]"
  let ?t2 = "?t1 @ [SubprocessRun [Some ''ping'', Some ''-c'', Some ''4'', Some ''example.com''] 30]"
  let ?t3 = "?t2 @ [HttpRequest ''GET'' ''http://example.com:11434/api/tags'' None 30]"
  let ?t4 = "?t3 @ [HttpRequest ''GET'' ''http://example.com:11434/api/version'' None 30]"
  let ?t5 = "?t4 @ [HttpRequest ''GET'' ''http://example.com:11434/api/health'' None 30]"
  have internet: "check_internet_connectivity failing_env [] = (Inr False, ?t1)"
    by (simp add: fixture_defs check_defs)
  have remote: "if is_remote remote_tester
      then check_remote_server failing_env remote_tester ?t1
           = (Inr (False, ''Remote server ping failed: Ping timeout for example.com''), ?t2)
      else ?t2 = ?t1"
    by (simp add: fixture_defs check_defs str_int_codes)
  have tags: "test_endpoint failing_env remote_tester ''/api/tags'' ''GET'' None ?t2
      = (Inr (False, ''Request timed out''), ?t3)"
    by (simp add: fixture_defs test_endpoint_def)
  have version: "test_endpoint failing_env remote_tester ''/api/version'' ''GET'' None ?t3
      = (Inr (False, ''Endpoint not found''), ?t4)"
    by (simp add: fixture_defs test_endpoint_def)
  have health: "test_endpoint failing_env remote_tester ''/api/health'' ''GET'' None ?t4
      = (Inr (False, ''Server error: 503''), ?t5)"
    by (simp add: fixture_defs test_endpoint_def str_int_codes)
  show ?thesis
    using get_detailed_status_runs_all [OF internet remote tags version health]
    by (simp add: remote_tester_def)
qed

end
